theory Spec2Isabelle
  imports Main
begin

section \<open>JavaScript values shared by the three state managers\<close>

text \<open>
  The managers are asynchronous functions: each one runs synchronously up to its
  \<^verbatim>\<open>await\<close>, is suspended while the request is in flight, and is resumed with
  the outcome of the request. Every such function is therefore embedded as two
  functions, one for the part before the \<^verbatim>\<open>await\<close> and one for the part after
  it (the \<^verbatim>\<open>try\<close> continuation, the \<^verbatim>\<open>catch\<close> and the \<^verbatim>\<open>finally\<close>).

  An awaited promise either resolves with a value or rejects with an error object;
  a function either returns a value or throws.
\<close>

datatype js_error = JsError (message: string)

datatype 'a completion = Returned 'a | Threw js_error

text \<open>
  Truthiness of the two kinds of value the guards test: a string that may be
  \<^verbatim>\<open>null\<close>/\<^verbatim>\<open>undefined\<close> (\<open>None\<close>) is truthy when it is present and not
  empty; a number that may be absent is truthy when it is present and not zero.
\<close>

definition truthy_str :: "string option \<Rightarrow> bool" where
  "truthy_str v = (case v of None \<Rightarrow> False | Some s \<Rightarrow> s \<noteq> [])"

definition truthy_num :: "int option \<Rightarrow> bool" where
  "truthy_num v = (case v of None \<Rightarrow> False | Some n \<Rightarrow> n \<noteq> 0)"

text \<open>
  \<^verbatim>\<open>String.prototype.trim\<close> removes white space at both ends. Characters are
  read as code units below 256: tab, line feed, vertical tab, form feed, carriage
  return, space and the no-break space are the white space among them.
\<close>

definition is_js_space :: "char \<Rightarrow> bool" where
  "is_js_space c = (of_char c \<in> {9, 10, 11, 12, 13, 32, 160 :: nat})"

definition trim :: "string \<Rightarrow> string" where
  "trim s = rev (dropWhile is_js_space (rev (dropWhile is_js_space s)))"

section \<open>The health service (healthService.js)\<close>

record health_payload =
  status :: "string option"

record health_cache =
  cache_status :: "string option"
  cache_timestamp :: "int option"
  expiresIn :: int

definition healthCache_init :: health_cache where
  "healthCache_init = \<lparr>cache_status = None, cache_timestamp = None, expiresIn = 30000\<rparr>"

text \<open>
  The test of \<^verbatim>\<open>checkApiHealth\<close> for "we have a cached result that is still valid":
  \<^verbatim>\<open>healthCache.status && healthCache.timestamp && (now - healthCache.timestamp) < healthCache.expiresIn\<close>.
  Its first two conjuncts say that the cache holds an entry at all; they are named
  on their own, so that the properties can speak of an entry and of its age.
\<close>

definition cache_entry_exists :: "health_cache \<Rightarrow> bool" where
  "cache_entry_exists c = (truthy_str (cache_status c) \<and> truthy_num (cache_timestamp c))"

definition cache_valid :: "int \<Rightarrow> health_cache \<Rightarrow> bool" where
  "cache_valid now c =
     (truthy_str (cache_status c) \<and> truthy_num (cache_timestamp c) \<and>
      (case cache_timestamp c of None \<Rightarrow> False | Some t \<Rightarrow> now - t < expiresIn c))"

datatype health_start = CacheHit health_payload | NetworkCall

text \<open>The part of \<^verbatim>\<open>checkApiHealth\<close> before \<^verbatim>\<open>await apiClient.get(ENDPOINTS.HEALTH)\<close>.\<close>

definition checkApiHealth_start :: "int \<Rightarrow> health_cache \<Rightarrow> health_start" where
  "checkApiHealth_start now c =
     (if cache_valid now c then CacheHit \<lparr>status = cache_status c\<rparr> else NetworkCall)"

text \<open>
  The part after it: \<open>now\<close> is the value read by \<^verbatim>\<open>Date.now()\<close> when the call
  started; the cache is assigned a fresh object in both branches.
\<close>

fun checkApiHealth_finish ::
  "int \<Rightarrow> health_payload completion \<Rightarrow> health_payload completion \<times> health_cache" where
  "checkApiHealth_finish now (Returned d) =
     (Returned d, \<lparr>cache_status = status d, cache_timestamp = Some now, expiresIn = 30000\<rparr>)"
| "checkApiHealth_finish now (Threw e) =
     (Threw e, \<lparr>cache_status = Some ''error'', cache_timestamp = Some now, expiresIn = 15000\<rparr>)"

text \<open>
  One whole call of \<^verbatim>\<open>checkApiHealth\<close> at time \<open>now\<close>, where \<open>net\<close> is what the
  network answers if it is asked: the result, the cache afterwards, and whether a
  network request was performed.
\<close>

definition checkApiHealth ::
  "int \<Rightarrow> health_payload completion \<Rightarrow> health_cache \<Rightarrow>
   health_payload completion \<times> health_cache \<times> bool" where
  "checkApiHealth now net c =
     (case checkApiHealth_start now c of
        CacheHit p \<Rightarrow> (Returned p, c, False)
      | NetworkCall \<Rightarrow> (case checkApiHealth_finish now net of (r, c') \<Rightarrow> (r, c', True)))"

section \<open>The connectivity health monitor (ApiContext.jsx)\<close>

record api_state =
  isConnected :: bool
  lastChecked :: "int option"
  isChecking :: bool
  api_error :: "string option"
  healthCheckInProgress :: bool

definition api_init :: api_state where
  "api_init = \<lparr>isConnected = True, lastChecked = None, isChecking = False,
               api_error = None, healthCheckInProgress = False\<rparr>"

text \<open>
  \<^verbatim>\<open>checkConnection(force)\<close> up to \<^verbatim>\<open>await checkApiHealth()\<close>. The first component
  tells whether the check went on (\<open>False\<close>: the guard returned \<^verbatim>\<open>undefined\<close>).
\<close>

definition checkConnection_start :: "bool \<Rightarrow> api_state \<Rightarrow> bool \<times> api_state" where
  "checkConnection_start force s =
     (if healthCheckInProgress s \<and> \<not> force then (False, s)
      else (True, s\<lparr>healthCheckInProgress := True, isChecking := True, api_error := None\<rparr>))"

text \<open>
  The rest of \<^verbatim>\<open>checkConnection\<close>, resumed with the outcome of the health
  operation; \<open>date\<close> is the value of \<^verbatim>\<open>new Date()\<close>. The \<^verbatim>\<open>finally\<close> block
  runs in both branches.
\<close>

definition checkConnection_finally :: "api_state \<Rightarrow> api_state" where
  "checkConnection_finally s = s\<lparr>healthCheckInProgress := False, isChecking := False\<rparr>"

fun checkConnection_finish ::
  "health_payload completion \<Rightarrow> int \<Rightarrow> api_state \<Rightarrow> bool completion \<times> api_state" where
  "checkConnection_finish (Returned health) date s =
     (let isHealthy = (status health = Some ''ok'') in
      (Returned isHealthy,
       checkConnection_finally (s\<lparr>isConnected := isHealthy, lastChecked := Some date\<rparr>)))"
| "checkConnection_finish (Threw err) date s =
     (Returned False,
      checkConnection_finally
        (s\<lparr>isConnected := False,
           api_error := Some (if message err \<noteq> [] then message err
                              else ''Unable to connect to API'')\<rparr>))"

text \<open>The two listeners for the client's global failure notifications.\<close>

definition handleNetworkError :: "api_state \<Rightarrow> api_state" where
  "handleNetworkError s = s\<lparr>isConnected := False\<rparr>"

definition handleServerError :: "api_state \<Rightarrow> api_state" where
  "handleServerError s = s\<lparr>isConnected := False\<rparr>"

subsection \<open>The monitor with its checks in flight\<close>

text \<open>
  A check that went past the guard is suspended either on the network request
  (issued at the recorded time) or on the already resolved promise of a cache hit.
  The list holds the suspended checks, so that overlapping checks can be expressed.
\<close>

datatype pending_check = AwaitNetwork int | AwaitCached health_payload

record monitor =
  api :: api_state
  cache :: health_cache
  pending :: "pending_check list"

definition monitor_init :: monitor where
  "monitor_init = \<lparr>api = api_init, cache = healthCache_init, pending = []\<rparr>"

datatype monitor_event =
    Call bool int
  | Settle nat "health_payload completion" int
  | NetworkErrorEvent
  | ServerErrorEvent

fun is_forced :: "monitor_event \<Rightarrow> bool" where
  "is_forced (Call force now) = force"
| "is_forced _ = False"

definition drop_nth :: "nat \<Rightarrow> 'a list \<Rightarrow> 'a list" where
  "drop_nth i xs = take i xs @ drop (Suc i) xs"

definition suspend_check :: "int \<Rightarrow> health_cache \<Rightarrow> pending_check" where
  "suspend_check now c =
     (case checkApiHealth_start now c of
        CacheHit p \<Rightarrow> AwaitCached p
      | NetworkCall \<Rightarrow> AwaitNetwork now)"

definition resume_check ::
  "pending_check \<Rightarrow> health_payload completion \<Rightarrow> health_cache \<Rightarrow>
   health_payload completion \<times> health_cache" where
  "resume_check p net c =
     (case p of
        AwaitCached h \<Rightarrow> (Returned h, c)
      | AwaitNetwork t0 \<Rightarrow> checkApiHealth_finish t0 net)"

fun monitor_step :: "monitor_event \<Rightarrow> monitor \<Rightarrow> monitor" where
  "monitor_step (Call force now) m =
     (case checkConnection_start force (api m) of
        (False, a) \<Rightarrow> m
      | (True, a) \<Rightarrow> m\<lparr>api := a, pending := pending m @ [suspend_check now (cache m)]\<rparr>)"
| "monitor_step (Settle i net date) m =
     (if i < length (pending m) then
        (case resume_check (pending m ! i) net (cache m) of
           (h, c) \<Rightarrow> m\<lparr>api := snd (checkConnection_finish h date (api m)),
                       cache := c,
                       pending := drop_nth i (pending m)\<rparr>)
      else m)"
| "monitor_step NetworkErrorEvent m = m\<lparr>api := handleNetworkError (api m)\<rparr>"
| "monitor_step ServerErrorEvent m = m\<lparr>api := handleServerError (api m)\<rparr>"

fun monitor_run :: "monitor_event list \<Rightarrow> monitor \<Rightarrow> monitor" where
  "monitor_run [] m = m"
| "monitor_run (e # es) m = monitor_run es (monitor_step e m)"

definition network_in_flight :: "monitor \<Rightarrow> nat" where
  "network_in_flight m = length (filter (\<lambda>p. case p of AwaitNetwork t \<Rightarrow> True | AwaitCached h \<Rightarrow> False) (pending m))"

definition guard_inv :: "monitor \<Rightarrow> bool" where
  "guard_inv m =
     (length (pending m) \<le> 1 \<and>
      isChecking (api m) = (pending m \<noteq> []) \<and>
      healthCheckInProgress (api m) = (pending m \<noteq> []))"

section \<open>The conversational session manager (ChatContext.jsx)\<close>

text \<open>
  Evidence items are passed through unread, so their type is a parameter. A user
  message is created without \<^verbatim>\<open>evidence\<close> and \<^verbatim>\<open>isError\<close> (absent, read as
  \<open>None\<close> and \<open>False\<close>); only the synthetic apology carries \<^verbatim>\<open>isError: true\<close>.
\<close>

record 'e message =
  role :: string
  content :: string
  evidence :: "'e list option"
  isError :: bool

record 'e chat_response =
  conversation_id :: "string option"
  response :: string
  response_evidence :: "'e list option"

record 'e conversation_data =
  data_messages :: "'e message list option"
  data_conversation_id :: "string option"

record 'e chat_state =
  messages :: "'e message list"
  chat_isLoading :: bool
  chat_error :: "string option"
  conversationId :: "string option"
  conversationIdRef :: "string option"

record chat_request =
  request_message :: string
  request_conversation_id :: "string option"

definition chat_init :: "'e chat_state" where
  "chat_init = \<lparr>messages = [], chat_isLoading = False, chat_error = None,
                conversationId = None, conversationIdRef = None\<rparr>"

definition userMessage :: "string \<Rightarrow> 'e message" where
  "userMessage messageText =
     \<lparr>role = ''user'', content = messageText, evidence = None, isError = False\<rparr>"

definition assistantMessage :: "'e chat_response \<Rightarrow> 'e message" where
  "assistantMessage r =
     \<lparr>role = ''assistant'', content = response r, evidence = response_evidence r,
      isError = False\<rparr>"

definition errorMessage :: "'e message" where
  "errorMessage =
     \<lparr>role = ''assistant'',
      content = ''Sorry, there was an error processing your request. Please try again.'',
      evidence = None, isError = True\<rparr>"

text \<open>
  \<^verbatim>\<open>sendMessage(messageText)\<close> up to \<^verbatim>\<open>await sendChatMessage(...)\<close>; \<open>connected\<close>
  is the \<^verbatim>\<open>isConnected\<close> the callback reads. \<open>None\<close> in the first component: the
  guard returned \<^verbatim>\<open>undefined\<close> and no request was issued.
\<close>

definition sendMessage_start ::
  "bool \<Rightarrow> string \<Rightarrow> 'e chat_state \<Rightarrow> chat_request option \<times> 'e chat_state" where
  "sendMessage_start connected messageText s =
     (if trim messageText = [] \<or> \<not> connected then (None, s)
      else (Some \<lparr>request_message = messageText,
                  request_conversation_id = conversationIdRef s\<rparr>,
            s\<lparr>messages := messages s @ [userMessage messageText],
              chat_isLoading := True, chat_error := None\<rparr>))"

text \<open>
  The rest of \<^verbatim>\<open>sendMessage\<close>, resumed with the outcome of the request. The value
  returned is the assistant message, or \<^verbatim>\<open>null\<close> (\<open>None\<close>) from the \<^verbatim>\<open>catch\<close>.
\<close>

fun sendMessage_finish ::
  "'e chat_response completion \<Rightarrow> 'e chat_state \<Rightarrow>
   'e message option completion \<times> 'e chat_state" where
  "sendMessage_finish (Returned r) s =
     (let s1 = (if truthy_str (conversation_id r) \<and> \<not> truthy_str (conversationIdRef s)
                then s\<lparr>conversationId := conversation_id r\<rparr> else s)
      in (Returned (Some (assistantMessage r)),
          s1\<lparr>messages := messages s1 @ [assistantMessage r], chat_isLoading := False\<rparr>))"
| "sendMessage_finish (Threw err) s =
     (Returned None,
      s\<lparr>chat_error := Some ''Failed to send message. Please try again.'',
        messages := messages s @ [errorMessage],
        chat_isLoading := False\<rparr>)"

text \<open>\<^verbatim>\<open>loadConversation(id)\<close> up to \<^verbatim>\<open>await getConversation(id)\<close>.\<close>

definition loadConversation_start ::
  "bool \<Rightarrow> string option \<Rightarrow> 'e chat_state \<Rightarrow> string option \<times> 'e chat_state" where
  "loadConversation_start connected ident s =
     (if \<not> truthy_str ident \<or> \<not> connected then (None, s)
      else (ident, s\<lparr>chat_isLoading := True, chat_error := None\<rparr>))"

text \<open>
  The statements of the \<^verbatim>\<open>try\<close> block after the \<^verbatim>\<open>await\<close>: the payload may be
  \<^verbatim>\<open>null\<close> (\<open>None\<close>), which the test \<^verbatim>\<open>data && data.messages\<close> allows for.
\<close>

definition loadConversation_try ::
  "'e conversation_data option \<Rightarrow> 'e chat_state \<Rightarrow> unit completion \<times> 'e chat_state" where
  "loadConversation_try data s =
     (case data of
        None \<Rightarrow> (Threw (JsError ''Invalid conversation data received''), s)
      | Some d \<Rightarrow>
          (case data_messages d of
             None \<Rightarrow> (Threw (JsError ''Invalid conversation data received''), s)
           | Some ms \<Rightarrow>
               (Returned (), s\<lparr>messages := ms, conversationId := data_conversation_id d\<rparr>)))"

definition loadConversation_catch :: "js_error \<Rightarrow> 'e chat_state \<Rightarrow> 'e chat_state" where
  "loadConversation_catch err s =
     s\<lparr>chat_error := Some ''Failed to load conversation. Please try again.''\<rparr>"

definition loadConversation_finally :: "'e chat_state \<Rightarrow> 'e chat_state" where
  "loadConversation_finally s = s\<lparr>chat_isLoading := False\<rparr>"

definition loadConversation_finish ::
  "'e conversation_data option completion \<Rightarrow> 'e chat_state \<Rightarrow>
   unit completion \<times> 'e chat_state" where
  "loadConversation_finish fetched s =
     (case fetched of
        Threw err \<Rightarrow> (Returned (), loadConversation_finally (loadConversation_catch err s))
      | Returned data \<Rightarrow>
          (case loadConversation_try data s of
             (Returned u, s1) \<Rightarrow> (Returned (), loadConversation_finally s1)
           | (Threw err, s1) \<Rightarrow>
               (Returned (), loadConversation_finally (loadConversation_catch err s1))))"

definition startNewConversation :: "'e chat_state \<Rightarrow> 'e chat_state" where
  "startNewConversation s = s\<lparr>messages := [], conversationId := None, chat_error := None\<rparr>"

text \<open>
  The effect \<^verbatim>\<open>conversationIdRef.current = conversationId\<close>. React runs it
  after it has committed a render in which \<^verbatim>\<open>conversationId\<close> changed, not when
  \<^verbatim>\<open>setConversationId\<close> is called: until then the ref keeps its old value.
\<close>

definition sync_ref :: "'e chat_state \<Rightarrow> 'e chat_state" where
  "sync_ref s = s\<lparr>conversationIdRef := conversationId s\<rparr>"

text \<open>
  A session as a run of events. Each event is one synchronous stretch of a manager
  function, or the run of the effect; several sends may be in flight, and their
  responses may settle in any order, before or after the effect.
\<close>

datatype 'e chat_event =
    Send bool string
  | ChatSettled "'e chat_response completion"
  | LoadStart bool "string option"
  | LoadSettled "'e conversation_data option completion"
  | StartNew
  | RunEffect

fun chat_step :: "'e chat_event \<Rightarrow> 'e chat_state \<Rightarrow> 'e chat_state" where
  "chat_step (Send connected messageText) s = snd (sendMessage_start connected messageText s)"
| "chat_step (ChatSettled outcome) s = snd (sendMessage_finish outcome s)"
| "chat_step (LoadStart connected ident) s = snd (loadConversation_start connected ident s)"
| "chat_step (LoadSettled fetched) s = snd (loadConversation_finish fetched s)"
| "chat_step StartNew s = startNewConversation s"
| "chat_step RunEffect s = sync_ref s"


section \<open>The paginated search manager (SearchContext.jsx)\<close>

text \<open>Trials are passed through unread as well.\<close>

record search_filters =
  phase :: string
  gender :: string
  healthyVolunteers :: string
  filter_status :: string

record 't search_data =
  data_results :: "'t list option"
  data_total :: "int option"

record 't search_state =
  query :: string
  results :: "'t list"
  totalResults :: int
  filters :: search_filters
  search_isLoading :: bool
  search_error :: "string option"
  page :: int
  pageSize :: int
  hasMore :: bool

record search_request =
  request_query :: string
  request_filters :: search_filters
  request_page :: int
  request_limit :: int

definition search_init :: "'t search_state" where
  "search_init =
     \<lparr>query = [], results = [], totalResults = 0,
      filters = \<lparr>phase = [], gender = [], healthyVolunteers = [], filter_status = []\<rparr>,
      search_isLoading = False, search_error = None, page = 1, pageSize = 10,
      hasMore = False\<rparr>"

text \<open>
  \<^verbatim>\<open>search(searchQuery = null, page = 1, pageSize = 10)\<close> up to
  \<^verbatim>\<open>await searchTrials(...)\<close>. An argument left out is \<open>None\<close> and takes its
  default. The request records the \<^verbatim>\<open>page\<close> and \<^verbatim>\<open>pageSize\<close> of the call,
  which the continuation reads again.
\<close>

definition search_start ::
  "bool \<Rightarrow> string option \<Rightarrow> int option \<Rightarrow> int option \<Rightarrow> 't search_state \<Rightarrow>
   search_request option \<times> 't search_state" where
  "search_start connected searchQuery page_arg pageSize_arg s =
     (let pg = (case page_arg of None \<Rightarrow> 1 | Some n \<Rightarrow> n);
          sz = (case pageSize_arg of None \<Rightarrow> 10 | Some n \<Rightarrow> n);
          s1 = (case searchQuery of None \<Rightarrow> s | Some q \<Rightarrow> s\<lparr>query := q\<rparr>);
          finalQuery = (case searchQuery of None \<Rightarrow> query s | Some q \<Rightarrow> q)
      in if trim finalQuery = [] \<or> \<not> connected then (None, s1)
         else (Some \<lparr>request_query = finalQuery, request_filters = filters s,
                     request_page = pg, request_limit = sz\<rparr>,
               s1\<lparr>search_isLoading := True, search_error := None\<rparr>))"

definition results_or_empty :: "'t search_data \<Rightarrow> 't list" where
  "results_or_empty d = (case data_results d of None \<Rightarrow> [] | Some rs \<Rightarrow> rs)"

definition total_or_zero :: "'t search_data \<Rightarrow> int" where
  "total_or_zero d = (case data_total d of None \<Rightarrow> 0 | Some n \<Rightarrow> n)"

text \<open>The rest of \<^verbatim>\<open>search\<close>, resumed with the outcome of the request \<open>rq\<close>.\<close>

fun search_finish ::
  "search_request \<Rightarrow> 't search_data completion \<Rightarrow> 't search_state \<Rightarrow> 't search_state" where
  "search_finish rq (Returned d) s =
     s\<lparr>results := (if request_page rq = 1 then results_or_empty d
                   else results s @ results_or_empty d),
       totalResults := total_or_zero d,
       hasMore := (request_limit rq \<le> int (length (results_or_empty d))),
       page := request_page rq,
       search_isLoading := False\<rparr>"
| "search_finish rq (Threw err) s =
     s\<lparr>search_error := Some ''Failed to search for trials. Please try again.'',
       results := [], totalResults := 0, hasMore := False,
       search_isLoading := False\<rparr>"

text \<open>\<^verbatim>\<open>loadMore()\<close>: the guard, then the synchronous part of the \<^verbatim>\<open>search\<close> it calls.\<close>

definition loadMore ::
  "bool \<Rightarrow> 't search_state \<Rightarrow> search_request option \<times> 't search_state" where
  "loadMore connected s =
     (if search_isLoading s \<or> \<not> hasMore s then (None, s)
      else search_start connected None (Some (page s + 1)) (Some (pageSize s)) s)"

section \<open>Properties of the health monitor\<close>

lemma guard_inv_init: "guard_inv monitor_init"
  by (simp add: guard_inv_def monitor_init_def api_init_def)

lemma finish_flags:
  "isChecking (snd (checkConnection_finish h date s)) = False \<and>
   healthCheckInProgress (snd (checkConnection_finish h date s)) = False"
  by (cases h) (simp_all add: checkConnection_finally_def Let_def)

lemma drop_nth_single: "length xs \<le> 1 \<Longrightarrow> i < length xs \<Longrightarrow> drop_nth i xs = []"
  by (cases xs) (auto simp: drop_nth_def)

lemma guard_inv_step:
  assumes "guard_inv m" and "\<not> is_forced e"
  shows "guard_inv (monitor_step e m)"
proof (cases e)
  case (Call force now)
  with assms(2) have nf: "force = False" by simp
  show ?thesis
  proof (cases "pending m = []")
    case True
    with assms(1) Call nf show ?thesis
      by (simp add: guard_inv_def checkConnection_start_def)
  next
    case False
    with assms(1) Call nf show ?thesis
      by (simp add: guard_inv_def checkConnection_start_def)
  qed
next
  case (Settle i net date)
  show ?thesis
  proof (cases "i < length (pending m)")
    case True
    with assms(1) have "drop_nth i (pending m) = []"
      by (simp add: guard_inv_def drop_nth_single)
    with True Settle show ?thesis
      by (simp add: guard_inv_def finish_flags split: prod.splits)
  next
    case False
    with assms(1) Settle show ?thesis by simp
  qed
next
  case NetworkErrorEvent
  with assms(1) show ?thesis by (simp add: guard_inv_def handleNetworkError_def)
next
  case ServerErrorEvent
  with assms(1) show ?thesis by (simp add: guard_inv_def handleServerError_def)
qed

lemma guard_inv_run:
  "guard_inv m \<Longrightarrow> \<forall>e \<in> set es. \<not> is_forced e \<Longrightarrow> guard_inv (monitor_run es m)"
  by (induction es arbitrary: m) (simp_all add: guard_inv_step)

lemma network_in_flight_le: "network_in_flight m \<le> length (pending m)"
  by (simp add: network_in_flight_def)

lemma cache_valid_iff:
  "cache_valid now c =
     (cache_entry_exists c \<and> (\<exists>t. cache_timestamp c = Some t \<and> now - t < expiresIn c))"
  by (auto simp: cache_valid_def cache_entry_exists_def truthy_num_def split: option.splits)

lemma checkApiHealth_hit:
  "cache_valid now c \<Longrightarrow> checkApiHealth now net c = (Returned \<lparr>status = cache_status c\<rparr>, c, False)"
  by (simp add: checkApiHealth_def checkApiHealth_start_def)

lemma checkApiHealth_miss:
  "\<not> cache_valid now c \<Longrightarrow>
   checkApiHealth now net c =
     (fst (checkApiHealth_finish now net), snd (checkApiHealth_finish now net), True)"
  by (simp add: checkApiHealth_def checkApiHealth_start_def split: prod.splits)

lemma fresh_cache_valid:
  "truthy_str st \<Longrightarrow> t \<noteq> 0 \<Longrightarrow>
   cache_valid later \<lparr>cache_status = st, cache_timestamp = Some t, expiresIn = ttl\<rparr>
     = (later - t < ttl)"
  by (simp add: cache_valid_def truthy_num_def)

text \<open>
  Claim C1. In every run of the monitor in which all calls of \<^verbatim>\<open>checkConnection\<close>
  are unforced (whatever the order in which calls, settled requests and failure
  notifications arrive), at most one check is suspended at any time, hence at most one
  network health request is in flight; \<^verbatim>\<open>isChecking\<close> is true exactly while that
  check is suspended; and a further unforced call made while it is suspended returns
  at once from the guard, leaving the whole state as it was.
\<close>

theorem C1_unforced_checks_do_not_overlap:
  assumes "\<forall>e \<in> set es. \<not> is_forced e"
  shows "length (pending (monitor_run es monitor_init)) \<le> 1 \<and>
         network_in_flight (monitor_run es monitor_init) \<le> 1 \<and>
         isChecking (api (monitor_run es monitor_init)) = (pending (monitor_run es monitor_init) \<noteq> []) \<and>
         (pending (monitor_run es monitor_init) \<noteq> [] \<longrightarrow>
            checkConnection_start False (api (monitor_run es monitor_init))
              = (False, api (monitor_run es monitor_init)) \<and>
            monitor_step (Call False now) (monitor_run es monitor_init)
              = monitor_run es monitor_init)"
proof -
  let ?m = "monitor_run es monitor_init"
  have inv: "guard_inv ?m"
    using guard_inv_init assms by (rule guard_inv_run)
  then have len: "length (pending ?m) \<le> 1" and chk: "isChecking (api ?m) = (pending ?m \<noteq> [])"
    and flag: "healthCheckInProgress (api ?m) = (pending ?m \<noteq> [])"
    by (simp_all add: guard_inv_def)
  have net: "network_in_flight ?m \<le> 1"
    using network_in_flight_le [of ?m] len by simp
  have skip: "pending ?m \<noteq> [] \<longrightarrow>
      checkConnection_start False (api ?m) = (False, api ?m) \<and>
      monitor_step (Call False now) ?m = ?m"
    using flag by (simp add: checkConnection_start_def)
  from len net chk skip show ?thesis by simp
qed

theorem C1_witness:
  "list_all (\<lambda>e. \<not> is_forced e) [Call False 1000, NetworkErrorEvent, Call False 2000] \<and>
   pending (monitor_run [Call False 1000, NetworkErrorEvent, Call False 2000] monitor_init)
     = [AwaitNetwork 1000] \<and>
   isChecking (api (monitor_run [Call False 1000, NetworkErrorEvent, Call False 2000] monitor_init)) \<and>
   network_in_flight (monitor_run [Call False 1000, NetworkErrorEvent, Call False 2000] monitor_init) \<le> 1 \<and>
   monitor_step (Call False 3000)
      (monitor_run [Call False 1000, NetworkErrorEvent, Call False 2000] monitor_init)
     = monitor_run [Call False 1000, NetworkErrorEvent, Call False 2000] monitor_init"
proof -
  have h: "\<forall>e \<in> set [Call False 1000, NetworkErrorEvent, Call False 2000]. \<not> is_forced e"
    by simp
  have p: "pending (monitor_run [Call False 1000, NetworkErrorEvent, Call False 2000] monitor_init)
     = [AwaitNetwork 1000]"
    by (simp add: monitor_init_def api_init_def healthCache_init_def checkConnection_start_def
        suspend_check_def checkApiHealth_start_def cache_valid_def truthy_str_def
        handleNetworkError_def)
  from C1_unforced_checks_do_not_overlap [OF h, of 3000] h p show ?thesis by simp
qed

text \<open>
  Claim C2. A call of \<^verbatim>\<open>checkApiHealth\<close> whose cache holds an entry (status and
  timestamp both truthy) younger than its \<^verbatim>\<open>expiresIn\<close> returns the cached status
  and performs no network request. Every other call performs the request and replaces
  the cache: time to live 30000 after a response, 15000 (and status \<^verbatim>\<open>'error'\<close>)
  after a failure. Consequently a response with a non-empty status is served from the
  cache while less than 30000 ms have passed and a failure while less than 15000 ms
  have passed, and the first call after that goes to the network again.
\<close>

theorem C2_health_cache_ttl:
  "(cache_entry_exists c \<and> cache_timestamp c = Some t \<and> now - t < expiresIn c \<longrightarrow>
      checkApiHealth now net c = (Returned \<lparr>status = cache_status c\<rparr>, c, False)) \<and>
   (\<not> (cache_entry_exists c \<and> (\<exists>t. cache_timestamp c = Some t \<and> now - t < expiresIn c)) \<longrightarrow>
      checkApiHealth now (Returned d) c =
        (Returned d, \<lparr>cache_status = status d, cache_timestamp = Some now, expiresIn = 30000\<rparr>, True) \<and>
      checkApiHealth now (Threw err) c =
        (Threw err, \<lparr>cache_status = Some ''error'', cache_timestamp = Some now, expiresIn = 15000\<rparr>, True)) \<and>
   (truthy_str (status d) \<and> now \<noteq> 0 \<longrightarrow>
      (later - now < 30000 \<longrightarrow>
         checkApiHealth later net (snd (checkApiHealth_finish now (Returned d)))
           = (Returned \<lparr>status = status d\<rparr>, snd (checkApiHealth_finish now (Returned d)), False)) \<and>
      (30000 \<le> later - now \<longrightarrow>
         snd (snd (checkApiHealth later net (snd (checkApiHealth_finish now (Returned d))))))) \<and>
   (now \<noteq> 0 \<longrightarrow>
      (later - now < 15000 \<longrightarrow>
         checkApiHealth later net (snd (checkApiHealth_finish now (Threw err)))
           = (Returned \<lparr>status = Some ''error''\<rparr>, snd (checkApiHealth_finish now (Threw err)), False)) \<and>
      (15000 \<le> later - now \<longrightarrow>
         snd (snd (checkApiHealth later net (snd (checkApiHealth_finish now (Threw err)))))))"
proof -
  have hit: "cache_entry_exists c \<and> cache_timestamp c = Some t \<and> now - t < expiresIn c \<longrightarrow>
      checkApiHealth now net c = (Returned \<lparr>status = cache_status c\<rparr>, c, False)"
    using checkApiHealth_hit [of now c net] by (auto simp: cache_valid_iff)
  have miss: "\<not> (cache_entry_exists c \<and> (\<exists>t. cache_timestamp c = Some t \<and> now - t < expiresIn c)) \<longrightarrow>
      checkApiHealth now (Returned d) c =
        (Returned d, \<lparr>cache_status = status d, cache_timestamp = Some now, expiresIn = 30000\<rparr>, True) \<and>
      checkApiHealth now (Threw err) c =
        (Threw err, \<lparr>cache_status = Some ''error'', cache_timestamp = Some now, expiresIn = 15000\<rparr>, True)"
    by (simp add: cache_valid_iff [symmetric] checkApiHealth_miss)
  have ok: "truthy_str (status d) \<and> now \<noteq> 0 \<longrightarrow>
      (later - now < 30000 \<longrightarrow>
         checkApiHealth later net (snd (checkApiHealth_finish now (Returned d)))
           = (Returned \<lparr>status = status d\<rparr>, snd (checkApiHealth_finish now (Returned d)), False)) \<and>
      (30000 \<le> later - now \<longrightarrow>
         snd (snd (checkApiHealth later net (snd (checkApiHealth_finish now (Returned d))))))"
    by (simp add: fresh_cache_valid checkApiHealth_hit checkApiHealth_miss)
  have "truthy_str (Some ''error'')" by (simp add: truthy_str_def)
  then have bad: "now \<noteq> 0 \<longrightarrow>
      (later - now < 15000 \<longrightarrow>
         checkApiHealth later net (snd (checkApiHealth_finish now (Threw err)))
           = (Returned \<lparr>status = Some ''error''\<rparr>, snd (checkApiHealth_finish now (Threw err)), False)) \<and>
      (15000 \<le> later - now \<longrightarrow>
         snd (snd (checkApiHealth later net (snd (checkApiHealth_finish now (Threw err))))))"
    by (simp add: fresh_cache_valid checkApiHealth_hit checkApiHealth_miss)
  from hit miss ok bad show ?thesis by blast
qed

theorem C2_witness:
  "checkApiHealth 1000 (Returned \<lparr>status = Some ''ok''\<rparr>) healthCache_init
     = (Returned \<lparr>status = Some ''ok''\<rparr>,
        \<lparr>cache_status = Some ''ok'', cache_timestamp = Some 1000, expiresIn = 30000\<rparr>, True) \<and>
   checkApiHealth 30999 (Threw (JsError ''Network Error''))
       \<lparr>cache_status = Some ''ok'', cache_timestamp = Some 1000, expiresIn = 30000\<rparr>
     = (Returned \<lparr>status = Some ''ok''\<rparr>,
        \<lparr>cache_status = Some ''ok'', cache_timestamp = Some 1000, expiresIn = 30000\<rparr>, False) \<and>
   snd (snd (checkApiHealth 31000 (Threw (JsError ''Network Error''))
       (snd (checkApiHealth_finish 1000 (Returned \<lparr>status = Some ''ok''\<rparr>))))) \<and>
   checkApiHealth 15999 (Returned \<lparr>status = Some ''ok''\<rparr>)
       (snd (checkApiHealth_finish 1000 (Threw (JsError ''Network Error''))))
     = (Returned \<lparr>status = Some ''error''\<rparr>,
        snd (checkApiHealth_finish 1000 (Threw (JsError ''Network Error''))), False) \<and>
   snd (snd (checkApiHealth 16000 (Returned \<lparr>status = Some ''ok''\<rparr>)
       (snd (checkApiHealth_finish 1000 (Threw (JsError ''Network Error''))))))"
proof -
  have e0: "\<not> cache_entry_exists healthCache_init"
    by (simp add: cache_entry_exists_def healthCache_init_def truthy_str_def)
  have e1: "cache_entry_exists \<lparr>cache_status = Some ''ok'', cache_timestamp = Some 1000, expiresIn = 30000\<rparr>"
    by (simp add: cache_entry_exists_def truthy_str_def truthy_num_def)
  have t: "truthy_str (status \<lparr>status = Some ''ok''\<rparr>)"
    by (simp add: truthy_str_def)
  note a = C2_health_cache_ttl [where c = healthCache_init and now = 1000
      and d = "\<lparr>status = Some ''ok''\<rparr>"]
  note b = C2_health_cache_ttl [where c = "\<lparr>cache_status = Some ''ok'', cache_timestamp = Some 1000, expiresIn = 30000\<rparr>"
      and now = 30999 and t = 1000 and net = "Threw (JsError ''Network Error'')"]
  note c = C2_health_cache_ttl [where now = 1000 and later = 31000
      and d = "\<lparr>status = Some ''ok''\<rparr>" and net = "Threw (JsError ''Network Error'')"]
  note d = C2_health_cache_ttl [where now = 1000 and later = 15999
      and err = "JsError ''Network Error''" and net = "Returned \<lparr>status = Some ''ok''\<rparr>"]
  note e = C2_health_cache_ttl [where now = 1000 and later = 16000
      and err = "JsError ''Network Error''" and net = "Returned \<lparr>status = Some ''ok''\<rparr>"]
  from a e0 have 1: "checkApiHealth 1000 (Returned \<lparr>status = Some ''ok''\<rparr>) healthCache_init
     = (Returned \<lparr>status = Some ''ok''\<rparr>,
        \<lparr>cache_status = Some ''ok'', cache_timestamp = Some 1000, expiresIn = 30000\<rparr>, True)"
    by simp
  from b e1 have 2: "checkApiHealth 30999 (Threw (JsError ''Network Error''))
       \<lparr>cache_status = Some ''ok'', cache_timestamp = Some 1000, expiresIn = 30000\<rparr>
     = (Returned \<lparr>status = Some ''ok''\<rparr>,
        \<lparr>cache_status = Some ''ok'', cache_timestamp = Some 1000, expiresIn = 30000\<rparr>, False)"
    by simp
  from c t have 3: "snd (snd (checkApiHealth 31000 (Threw (JsError ''Network Error''))
       (snd (checkApiHealth_finish 1000 (Returned \<lparr>status = Some ''ok''\<rparr>)))))"
    by simp
  from d have 4: "checkApiHealth 15999 (Returned \<lparr>status = Some ''ok''\<rparr>)
       (snd (checkApiHealth_finish 1000 (Threw (JsError ''Network Error''))))
     = (Returned \<lparr>status = Some ''error''\<rparr>,
        snd (checkApiHealth_finish 1000 (Threw (JsError ''Network Error''))), False)"
    by simp
  from e have 5: "snd (snd (checkApiHealth 16000 (Returned \<lparr>status = Some ''ok''\<rparr>)
       (snd (checkApiHealth_finish 1000 (Threw (JsError ''Network Error''))))))"
    by simp
  from 1 2 3 4 5 show ?thesis by blast
qed

text \<open>
  Claim C8. When the health request of a check fails, \<^verbatim>\<open>checkApiHealth\<close> rethrows and
  \<^verbatim>\<open>checkConnection\<close> catches: the call completes normally with \<^verbatim>\<open>false\<close>, is
  disconnected and no longer checking. A health result with status \<^verbatim>\<open>"error"\<close> gives
  the caller the same: the value \<^verbatim>\<open>false\<close>, disconnected, no longer checking.
\<close>

theorem C8_failed_check_is_absorbed:
  "fst (checkConnection_finish (fst (checkApiHealth_finish now (Threw err))) date s)
     = Returned False \<and>
   fst (checkConnection_finish (Returned \<lparr>status = Some ''error''\<rparr>) date s)
     = Returned False \<and>
   isConnected (snd (checkConnection_finish (fst (checkApiHealth_finish now (Threw err))) date s))
     = False \<and>
   isConnected (snd (checkConnection_finish (Returned \<lparr>status = Some ''error''\<rparr>) date s))
     = False \<and>
   isChecking (snd (checkConnection_finish (fst (checkApiHealth_finish now (Threw err))) date s))
     = isChecking (snd (checkConnection_finish (Returned \<lparr>status = Some ''error''\<rparr>) date s)) \<and>
   healthCheckInProgress
       (snd (checkConnection_finish (fst (checkApiHealth_finish now (Threw err))) date s))
     = healthCheckInProgress
       (snd (checkConnection_finish (Returned \<lparr>status = Some ''error''\<rparr>) date s))"
  by (simp add: checkConnection_finally_def)

text \<open>
  Claim C10. \<^verbatim>\<open>lastChecked\<close> is written only where a check resolves. Starting a
  check (skipped or not) and the two failure listeners leave it as it was, and so does
  the continuation of a check whose health operation rejects: over the whole failure
  path, from the call to the end of the \<^verbatim>\<open>finally\<close> block, it keeps its value. A
  check whose health operation resolves, with whatever status and whether from the
  network or from the cache, sets it to the time of resolution. For the monitor: an
  event changes \<^verbatim>\<open>lastChecked\<close> exactly when it settles a suspended check that
  resolves, and then to the time of that event.
\<close>

theorem C10_lastChecked_only_on_resolution:
  "lastChecked (snd (checkConnection_finish (Threw err) date s)) = lastChecked s \<and>
   lastChecked
       (snd (checkConnection_finish (fst (checkApiHealth_finish now (Threw err))) date s))
     = lastChecked s \<and>
   lastChecked (snd (checkConnection_finish (Returned health) date s)) = Some date \<and>
   lastChecked
       (snd (checkConnection_finish (fst (resume_check (AwaitCached health) net c)) date s))
     = Some date \<and>
   lastChecked
       (snd (checkConnection_finish (fst (checkApiHealth_finish now (Returned health))) date s))
     = Some date \<and>
   lastChecked (snd (checkConnection_start force s)) = lastChecked s \<and>
   lastChecked (handleNetworkError s) = lastChecked s \<and>
   lastChecked (handleServerError s) = lastChecked s \<and>
   lastChecked
       (snd (checkConnection_finish (fst (checkApiHealth_finish now (Threw err))) date
               (snd (checkConnection_start force s))))
     = lastChecked s \<and>
   lastChecked (api (monitor_step e m)) =
     (case e of
        Settle i outcome time \<Rightarrow>
          if i < length (pending m) \<and>
             (case pending m ! i of
                AwaitCached h \<Rightarrow> True
              | AwaitNetwork t0 \<Rightarrow> (case outcome of Returned h \<Rightarrow> True | Threw x \<Rightarrow> False))
          then Some time else lastChecked (api m)
      | Call f t \<Rightarrow> lastChecked (api m)
      | NetworkErrorEvent \<Rightarrow> lastChecked (api m)
      | ServerErrorEvent \<Rightarrow> lastChecked (api m))"
proof -
  have fin: "lastChecked (snd (checkConnection_finish (Threw err) date s)) = lastChecked s \<and>
      lastChecked
        (snd (checkConnection_finish (fst (checkApiHealth_finish now (Threw err))) date s))
        = lastChecked s \<and>
      lastChecked (snd (checkConnection_finish (Returned health) date s)) = Some date \<and>
      lastChecked
        (snd (checkConnection_finish (fst (resume_check (AwaitCached health) net c)) date s))
        = Some date \<and>
      lastChecked
        (snd (checkConnection_finish (fst (checkApiHealth_finish now (Returned health))) date s))
        = Some date"
    by (simp add: checkConnection_finally_def resume_check_def Let_def)
  have start: "lastChecked (snd (checkConnection_start force s)) = lastChecked s"
    by (simp add: checkConnection_start_def)
  have listen: "lastChecked (handleNetworkError s) = lastChecked s \<and>
      lastChecked (handleServerError s) = lastChecked s"
    by (simp add: handleNetworkError_def handleServerError_def)
  have path: "lastChecked
       (snd (checkConnection_finish (fst (checkApiHealth_finish now (Threw err))) date
               (snd (checkConnection_start force s))))
     = lastChecked s"
    by (simp add: checkConnection_finally_def checkConnection_start_def)
  have step: "lastChecked (api (monitor_step e m)) =
     (case e of
        Settle i outcome time \<Rightarrow>
          if i < length (pending m) \<and>
             (case pending m ! i of
                AwaitCached h \<Rightarrow> True
              | AwaitNetwork t0 \<Rightarrow> (case outcome of Returned h \<Rightarrow> True | Threw x \<Rightarrow> False))
          then Some time else lastChecked (api m)
      | Call f t \<Rightarrow> lastChecked (api m)
      | NetworkErrorEvent \<Rightarrow> lastChecked (api m)
      | ServerErrorEvent \<Rightarrow> lastChecked (api m))"
  proof (cases e)
    case (Call f t)
    then show ?thesis
      by (simp add: checkConnection_start_def)
  next
    case (Settle i outcome time)
    show ?thesis
    proof (cases "pending m ! i")
      case (AwaitNetwork t0)
      with Settle show ?thesis
        by (cases outcome)
          (simp_all add: resume_check_def checkConnection_finally_def Let_def)
    next
      case (AwaitCached h)
      with Settle show ?thesis
        by (simp add: resume_check_def checkConnection_finally_def Let_def)
    qed
  next
    case NetworkErrorEvent
    then show ?thesis by (simp add: handleNetworkError_def)
  next
    case ServerErrorEvent
    then show ?thesis by (simp add: handleServerError_def)
  qed
  from fin start listen path step show ?thesis by blast
qed

theorem C10_witness:
  "lastChecked (api (monitor_run
       [Call False 1000, Settle 0 (Threw (JsError ''Network Error'')) 1200]
       (monitor_init\<lparr>api := api_init\<lparr>lastChecked := Some 500\<rparr>\<rparr>)))
     = Some 500 \<and>
   lastChecked (api (monitor_run
       [Call False 1000, Settle 0 (Returned \<lparr>status = Some ''degraded''\<rparr>) 1200]
       (monitor_init\<lparr>api := api_init\<lparr>lastChecked := Some 500\<rparr>\<rparr>)))
     = Some 1200"
proof -
  have p: "pending (monitor_step (Call False 1000)
       (monitor_init\<lparr>api := api_init\<lparr>lastChecked := Some 500\<rparr>\<rparr>)) = [AwaitNetwork 1000]"
    by (simp add: monitor_init_def api_init_def healthCache_init_def checkConnection_start_def
        suspend_check_def checkApiHealth_start_def cache_valid_def truthy_str_def)
  note a = C10_lastChecked_only_on_resolution
    [where e = "Call False 1000"
       and m = "monitor_init\<lparr>api := api_init\<lparr>lastChecked := Some 500\<rparr>\<rparr>",
     THEN conjunct2, THEN conjunct2, THEN conjunct2, THEN conjunct2, THEN conjunct2,
     THEN conjunct2, THEN conjunct2, THEN conjunct2, THEN conjunct2]
  note b = C10_lastChecked_only_on_resolution
    [where e = "Settle 0 (Threw (JsError ''Network Error'')) 1200"
       and m = "monitor_step (Call False 1000)
                  (monitor_init\<lparr>api := api_init\<lparr>lastChecked := Some 500\<rparr>\<rparr>)",
     THEN conjunct2, THEN conjunct2, THEN conjunct2, THEN conjunct2, THEN conjunct2,
     THEN conjunct2, THEN conjunct2, THEN conjunct2, THEN conjunct2]
  note c = C10_lastChecked_only_on_resolution
    [where e = "Settle 0 (Returned \<lparr>status = Some ''degraded''\<rparr>) 1200"
       and m = "monitor_step (Call False 1000)
                  (monitor_init\<lparr>api := api_init\<lparr>lastChecked := Some 500\<rparr>\<rparr>)",
     THEN conjunct2, THEN conjunct2, THEN conjunct2, THEN conjunct2, THEN conjunct2,
     THEN conjunct2, THEN conjunct2, THEN conjunct2, THEN conjunct2]
  have a': "lastChecked (api (monitor_step (Call False 1000)
       (monitor_init\<lparr>api := api_init\<lparr>lastChecked := Some 500\<rparr>\<rparr>))) = Some 500"
    using a by (simp add: monitor_init_def)
  have b': "lastChecked (api (monitor_step (Settle 0 (Threw (JsError ''Network Error'')) 1200)
       (monitor_step (Call False 1000)
          (monitor_init\<lparr>api := api_init\<lparr>lastChecked := Some 500\<rparr>\<rparr>)))) = Some 500"
    using b p a' by simp
  have c': "lastChecked (api (monitor_step (Settle 0 (Returned \<lparr>status = Some ''degraded''\<rparr>) 1200)
       (monitor_step (Call False 1000)
          (monitor_init\<lparr>api := api_init\<lparr>lastChecked := Some 500\<rparr>\<rparr>)))) = Some 1200"
    using c p by simp
  from b' c' show ?thesis by simp
qed

section \<open>Properties of the conversational session manager\<close>

lemma trim_Nil: "trim [] = []"
  by (simp add: trim_def)

lemma trim_two_spaces: "trim ''  '' = []"
  by (simp add: trim_def is_js_space_def)

lemma held_ref_keeps_id:
  "truthy_str (conversationIdRef s) \<Longrightarrow>
   conversationId (snd (sendMessage_finish (Returned r) s)) = conversationId s"
  by (simp add: Let_def)

lemma unheld_ref_adopts_id:
  "\<not> truthy_str (conversationIdRef s) \<Longrightarrow> truthy_str (conversation_id r) \<Longrightarrow>
   conversationId (snd (sendMessage_finish (Returned r) s)) = conversation_id r"
  by (simp add: Let_def)


text \<open>
  Claim C7. When the trimmed text is empty (as for \<^verbatim>\<open>""\<close> and for two spaces) or
  the connection is down, \<^verbatim>\<open>sendMessage\<close> issues no request and leaves the whole
  session state as it was: no message appended, no error set.
\<close>

theorem C7_blank_or_disconnected_send_is_noop:
  "(trim messageText = [] \<or> \<not> connected \<longrightarrow>
      sendMessage_start connected messageText s = (None, s) \<and>
      chat_step (Send connected messageText) s = s) \<and>
   sendMessage_start connected [] s = (None, s) \<and>
   sendMessage_start connected ''  '' s = (None, s)"
  by (simp add: sendMessage_start_def trim_Nil trim_two_spaces)

theorem C7_witness:
  "sendMessage_start False ''hello''
      (chat_init\<lparr>messages := [userMessage ''first'' :: nat message]\<rparr>)
     = (None, chat_init\<lparr>messages := [userMessage ''first'']\<rparr>) \<and>
   chat_step (Send True [CHR 0x09, CHR '' '', CHR 0x0A])
      (chat_init\<lparr>messages := [userMessage ''first'' :: nat message]\<rparr>)
     = chat_init\<lparr>messages := [userMessage ''first'']\<rparr>"
proof -
  have t: "trim [CHR 0x09, CHR '' '', CHR 0x0A] = []"
    by (simp add: trim_def is_js_space_def)
  from C7_blank_or_disconnected_send_is_noop
         [where connected = False and messageText = "''hello''"
            and s = "chat_init\<lparr>messages := [userMessage ''first'' :: nat message]\<rparr>"]
       C7_blank_or_disconnected_send_is_noop
         [where connected = True and messageText = "[CHR 0x09, CHR '' '', CHR 0x0A]"
            and s = "chat_init\<lparr>messages := [userMessage ''first'' :: nat message]\<rparr>"]
       t
  show ?thesis by simp
qed

text \<open>
  Claim C6. When \<^verbatim>\<open>sendMessage\<close> has issued a request and the request fails, the
  call returns \<^verbatim>\<open>null\<close>; the message list is what it was at that moment with exactly
  one message added at the end, the assistant's apology with \<^verbatim>\<open>isError\<close> true and the
  fixed text; the error field holds the fixed failure text and \<^verbatim>\<open>isLoading\<close> is
  false. The user message appended when the request was issued is still in the list:
  if nothing else happened in between, the list is the old one followed by the user
  message and the apology.
\<close>

theorem C6_failed_send_appends_one_apology:
  assumes "sendMessage_start connected messageText s = (Some rq, s1)"
  shows "messages s1 = messages s @ [userMessage messageText] \<and>
         fst (sendMessage_finish (Threw err) s') = Returned None \<and>
         messages (snd (sendMessage_finish (Threw err) s')) = messages s' @ [errorMessage] \<and>
         messages (snd (sendMessage_finish (Threw err) s1))
           = messages s @ [userMessage messageText, errorMessage] \<and>
         role (errorMessage :: 'e message) = ''assistant'' \<and>
         isError (errorMessage :: 'e message) \<and>
         content (errorMessage :: 'e message)
           = ''Sorry, there was an error processing your request. Please try again.'' \<and>
         chat_error (snd (sendMessage_finish (Threw err) s'))
           = Some ''Failed to send message. Please try again.'' \<and>
         chat_isLoading (snd (sendMessage_finish (Threw err) s')) = False"
proof -
  from assms have "s1 = s\<lparr>messages := messages s @ [userMessage messageText],
                          chat_isLoading := True, chat_error := None\<rparr>"
    by (simp add: sendMessage_start_def split: if_splits)
  then show ?thesis
    by (simp add: errorMessage_def)
qed

theorem C6_witness:
  "sendMessage_start True ''any trials?'' (chat_init :: nat chat_state)
     = (Some \<lparr>request_message = ''any trials?'', request_conversation_id = None\<rparr>,
        chat_init\<lparr>messages := [userMessage ''any trials?''], chat_isLoading := True\<rparr>) \<and>
   messages (snd (sendMessage_finish (Threw (JsError ''timeout''))
       (chat_init\<lparr>messages := [userMessage ''any trials?''], chat_isLoading := True\<rparr>
          :: nat chat_state)))
     = [userMessage ''any trials?'', errorMessage] \<and>
   fst (sendMessage_finish (Threw (JsError ''timeout''))
       (chat_init\<lparr>messages := [userMessage ''any trials?''], chat_isLoading := True\<rparr>
          :: nat chat_state))
     = Returned None"
proof -
  have t: "trim ''any trials?'' = ''any trials?''"
    by (simp add: trim_def is_js_space_def)
  have h: "sendMessage_start True ''any trials?'' (chat_init :: nat chat_state)
     = (Some \<lparr>request_message = ''any trials?'', request_conversation_id = None\<rparr>,
        chat_init\<lparr>messages := [userMessage ''any trials?''], chat_isLoading := True\<rparr>)"
    by (simp add: sendMessage_start_def t chat_init_def)
  from C6_failed_send_appends_one_apology [OF h, of "JsError ''timeout''"
      "chat_init\<lparr>messages := [userMessage ''any trials?''], chat_isLoading := True\<rparr>"] h
  show ?thesis by (simp add: chat_init_def)
qed

text \<open>
  Claim C9. For a truthy id and with the connection up, \<^verbatim>\<open>loadConversation\<close> issues
  the fetch. When the fetch resolves with no payload or with a payload without
  \<^verbatim>\<open>messages\<close>, the \<^verbatim>\<open>try\<close> block throws an error with the message
  \<^verbatim>\<open>Invalid conversation data received\<close>; the call catches it and completes
  normally with the error field set (to the fixed text of the \<^verbatim>\<open>catch\<close> block),
  \<^verbatim>\<open>isLoading\<close> false, and \<^verbatim>\<open>messages\<close> and \<^verbatim>\<open>conversationId\<close> as they were.
\<close>

theorem C9_load_without_messages_fails:
  assumes "truthy_str ident"
    and "data = None \<or> (\<exists>d. data = Some d \<and> data_messages d = None)"
  shows "fst (loadConversation_start True ident s) = ident \<and>
         fst (loadConversation_try data s') = Threw (JsError ''Invalid conversation data received'') \<and>
         fst (loadConversation_finish (Returned data) s') = Returned () \<and>
         chat_error (snd (loadConversation_finish (Returned data) s')) \<noteq> None \<and>
         chat_error (snd (loadConversation_finish (Returned data) s'))
           = Some ''Failed to load conversation. Please try again.'' \<and>
         messages (snd (loadConversation_finish (Returned data) s')) = messages s' \<and>
         conversationId (snd (loadConversation_finish (Returned data) s')) = conversationId s' \<and>
         chat_isLoading (snd (loadConversation_finish (Returned data) s')) = False \<and>
         messages (snd (loadConversation_finish (Returned data)
                          (snd (loadConversation_start True ident s)))) = messages s \<and>
         conversationId (snd (loadConversation_finish (Returned data)
                          (snd (loadConversation_start True ident s)))) = conversationId s"
proof -
  from assms(2) have thrown: "\<And>x. loadConversation_try data x
      = (Threw (JsError ''Invalid conversation data received''), x)"
    by (auto simp: loadConversation_try_def)
  have fin: "\<And>x. loadConversation_finish (Returned data) x
      = (Returned (), x\<lparr>chat_error := Some ''Failed to load conversation. Please try again.'',
                        chat_isLoading := False\<rparr>)"
    by (simp add: loadConversation_finish_def thrown loadConversation_catch_def
        loadConversation_finally_def)
  from assms(1) have start: "loadConversation_start True ident s
      = (ident, s\<lparr>chat_isLoading := True, chat_error := None\<rparr>)"
    by (simp add: loadConversation_start_def)
  show ?thesis
    by (simp add: thrown fin start)
qed

theorem C9_witness:
  "truthy_str (Some ''conv-7'') \<and>
   chat_error (snd (loadConversation_finish
       (Returned (Some \<lparr>data_messages = None, data_conversation_id = Some ''conv-7''\<rparr>))
       (chat_init\<lparr>messages := [userMessage ''kept'' :: nat message],
                  conversationId := Some ''old''\<rparr>)))
     = Some ''Failed to load conversation. Please try again.'' \<and>
   messages (snd (loadConversation_finish
       (Returned (Some \<lparr>data_messages = None, data_conversation_id = Some ''conv-7''\<rparr>))
       (chat_init\<lparr>messages := [userMessage ''kept'' :: nat message],
                  conversationId := Some ''old''\<rparr>)))
     = [userMessage ''kept''] \<and>
   conversationId (snd (loadConversation_finish
       (Returned (Some \<lparr>data_messages = None, data_conversation_id = Some ''conv-7''\<rparr>))
       (chat_init\<lparr>messages := [userMessage ''kept'' :: nat message],
                  conversationId := Some ''old''\<rparr>)))
     = Some ''old''"
proof -
  have a: "truthy_str (Some ''conv-7'')"
    by (simp add: truthy_str_def)
  have b: "Some \<lparr>data_messages = (None :: nat message list option),
                  data_conversation_id = Some ''conv-7''\<rparr> = None \<or>
           (\<exists>d. Some \<lparr>data_messages = (None :: nat message list option),
                        data_conversation_id = Some ''conv-7''\<rparr> = Some d \<and>
                data_messages d = None)"
    by simp
  from C9_load_without_messages_fails [OF a b,
      of "chat_init\<lparr>messages := [userMessage ''kept'' :: nat message],
                     conversationId := Some ''old''\<rparr>"] a
  show ?thesis by simp
qed

section \<open>Properties of the paginated search manager\<close>

lemma search_start_issues:
  assumes "trim (case searchQuery of None \<Rightarrow> query s | Some q \<Rightarrow> q) \<noteq> []"
  shows "search_start True searchQuery page_arg pageSize_arg s =
     (Some \<lparr>request_query = (case searchQuery of None \<Rightarrow> query s | Some q \<Rightarrow> q),
            request_filters = filters s,
            request_page = (case page_arg of None \<Rightarrow> 1 | Some n \<Rightarrow> n),
            request_limit = (case pageSize_arg of None \<Rightarrow> 10 | Some n \<Rightarrow> n)\<rparr>,
      s\<lparr>query := (case searchQuery of None \<Rightarrow> query s | Some q \<Rightarrow> q),
        search_isLoading := True, search_error := None\<rparr>)"
  using assms by (cases searchQuery) (simp_all add: search_start_def)

text \<open>
  Claim C3. A call of \<^verbatim>\<open>search\<close> whose effective query is not blank, made with
  the connection up, issues a request for the page and page size of the call and sets
  \<^verbatim>\<open>isLoading\<close>. When the request succeeds, the results become the response's list
  (the empty list if it has none) for page 1 and the list held at that moment followed
  by the response's list for any other page; \<^verbatim>\<open>totalResults\<close> is the response's
  total (0 if it has none); \<^verbatim>\<open>hasMore\<close> tells whether the response's list has at least page-size
  items; \<^verbatim>\<open>page\<close> is the page of the call. When it fails, the error is set, the
  results are empty, the total is 0 and \<^verbatim>\<open>hasMore\<close> is false. \<^verbatim>\<open>isLoading\<close> is
  false afterwards in both cases.
\<close>

theorem C3_search_outcome:
  assumes "trim (case searchQuery of None \<Rightarrow> query s | Some q \<Rightarrow> q) \<noteq> []"
    and "search_start True searchQuery page_arg pageSize_arg s = (issued, s1)"
    and "pg = (case page_arg of None \<Rightarrow> 1 | Some n \<Rightarrow> n)"
    and "sz = (case pageSize_arg of None \<Rightarrow> 10 | Some n \<Rightarrow> n)"
  shows "(\<exists>rq. issued = Some rq \<and> request_page rq = pg \<and> request_limit rq = sz \<and>
            search_isLoading s1 \<and>
            results (search_finish rq (Returned d) s') =
              (if pg = 1 then results_or_empty d else results s' @ results_or_empty d) \<and>
            totalResults (search_finish rq (Returned d) s') = total_or_zero d \<and>
            hasMore (search_finish rq (Returned d) s') = (sz \<le> int (length (results_or_empty d))) \<and>
            page (search_finish rq (Returned d) s') = pg \<and>
            search_isLoading (search_finish rq (Returned d) s') = False \<and>
            search_error (search_finish rq (Threw err) s')
              = Some ''Failed to search for trials. Please try again.'' \<and>
            results (search_finish rq (Threw err) s') = [] \<and>
            totalResults (search_finish rq (Threw err) s') = 0 \<and>
            hasMore (search_finish rq (Threw err) s') = False \<and>
            search_isLoading (search_finish rq (Threw err) s') = False) \<and>
         results_or_empty \<lparr>data_results = None, data_total = tot\<rparr> = ([] :: 't list) \<and>
         results_or_empty \<lparr>data_results = Some (rs :: 't list), data_total = tot\<rparr> = rs \<and>
         totalResults (search_finish rq0 (Returned d) s')
           = (case data_total d of None \<Rightarrow> 0 | Some n \<Rightarrow> n) \<and>
         total_or_zero \<lparr>data_results = res, data_total = Some n\<rparr> = n \<and>
         total_or_zero \<lparr>data_results = res, data_total = None\<rparr> = 0"
proof -
  from assms(1,2) have iss: "issued =
       Some \<lparr>request_query = (case searchQuery of None \<Rightarrow> query s | Some q \<Rightarrow> q),
            request_filters = filters s,
            request_page = (case page_arg of None \<Rightarrow> 1 | Some n \<Rightarrow> n),
            request_limit = (case pageSize_arg of None \<Rightarrow> 10 | Some n \<Rightarrow> n)\<rparr>"
    and st: "s1 = s\<lparr>query := (case searchQuery of None \<Rightarrow> query s | Some q \<Rightarrow> q),
        search_isLoading := True, search_error := None\<rparr>"
    by (simp_all add: search_start_issues)
  show ?thesis
    by (simp add: iss st assms(3,4) results_or_empty_def total_or_zero_def)
qed

theorem C3_witness:
  "results (search_finish
      \<lparr>request_query = ''melanoma trials'', request_filters = filters (search_init :: nat search_state),
        request_page = 1, request_limit = 10\<rparr>
      (Returned \<lparr>data_results = Some [1, 2, 3 :: nat], data_total = Some 3\<rparr>)
      (search_init\<lparr>results := [7, 8 :: nat]\<rparr>)) = [1, 2, 3] \<and>
   hasMore (search_finish
      \<lparr>request_query = ''melanoma trials'', request_filters = filters (search_init :: nat search_state),
        request_page = 1, request_limit = 10\<rparr>
      (Returned \<lparr>data_results = Some [1, 2, 3 :: nat], data_total = Some 3\<rparr>)
      (search_init\<lparr>results := [7, 8 :: nat]\<rparr>)) = False \<and>
   totalResults (search_finish
      \<lparr>request_query = ''melanoma trials'', request_filters = filters (search_init :: nat search_state),
        request_page = 1, request_limit = 10\<rparr>
      (Returned \<lparr>data_results = Some [1, 2, 3 :: nat], data_total = Some 3\<rparr>)
      (search_init\<lparr>results := [7, 8 :: nat]\<rparr>)) = 3"
proof -
  have t: "trim ''melanoma trials'' = ''melanoma trials''"
    by (simp add: trim_def is_js_space_def)
  have h1: "trim (case Some ''melanoma trials'' of None \<Rightarrow> query (search_init :: nat search_state)
                  | Some q \<Rightarrow> q) \<noteq> []"
    by (simp add: t)
  have h2: "search_start True (Some ''melanoma trials'') None None (search_init :: nat search_state)
     = (Some \<lparr>request_query = ''melanoma trials'',
              request_filters = filters (search_init :: nat search_state),
              request_page = 1, request_limit = 10\<rparr>,
        search_init\<lparr>query := ''melanoma trials'', search_isLoading := True, search_error := None\<rparr>)"
    by (simp add: search_start_def t)
  have h3: "(1::int) = (case None of None \<Rightarrow> 1 | Some n \<Rightarrow> n)" by simp
  have h4: "(10::int) = (case None of None \<Rightarrow> 10 | Some n \<Rightarrow> n)" by simp
  from C3_search_outcome [OF h1 h2 h3 h4,
      where d = "\<lparr>data_results = Some [1, 2, 3 :: nat], data_total = Some 3\<rparr>"
        and s' = "search_init\<lparr>results := [7, 8 :: nat]\<rparr>"
        and ?rq0.0 = "\<lparr>request_query = ''melanoma trials'',
              request_filters = filters (search_init :: nat search_state),
              request_page = 1, request_limit = 10\<rparr>"
        and n = 3 and res = "Some [1, 2, 3 :: nat]"]
  show ?thesis by (simp add: results_or_empty_def)
qed

text \<open>
  Claim C4. \<^verbatim>\<open>loadMore\<close> issues nothing and changes nothing while \<^verbatim>\<open>isLoading\<close> is
  true or \<^verbatim>\<open>hasMore\<close> is false; otherwise it is the call
  \<^verbatim>\<open>search(null, page + 1, pageSize)\<close>. With a query held that is not blank, the
  connection up and the page at least 1, that call requests page \<^verbatim>\<open>page + 1\<close> with
  limit \<^verbatim>\<open>pageSize\<close>, and when the request succeeds its results are put after the
  list already held. So after a first page of ten results with page size 10,
  \<^verbatim>\<open>loadMore\<close> requests page 2 with limit 10 and the list has 10 plus the returned
  number of entries.
\<close>

theorem C4_loadMore_appends:
  "(search_isLoading s \<or> \<not> hasMore s \<longrightarrow> loadMore connected s = (None, s)) \<and>
   (\<not> search_isLoading s \<and> hasMore s \<longrightarrow>
      loadMore connected s = search_start connected None (Some (page s + 1)) (Some (pageSize s)) s) \<and>
   (\<not> search_isLoading s \<and> hasMore s \<and> trim (query s) \<noteq> [] \<and> 1 \<le> page s \<longrightarrow>
      (\<exists>rq s1. loadMore True s = (Some rq, s1) \<and>
         request_query rq = query s \<and> request_page rq = page s + 1 \<and>
         request_limit rq = pageSize s \<and> results s1 = results s \<and>
         results (search_finish rq (Returned d) s1) = results s @ results_or_empty d \<and>
         length (results (search_finish rq (Returned d) s1))
           = length (results s) + length (results_or_empty d)))"
proof -
  have a: "search_isLoading s \<or> \<not> hasMore s \<longrightarrow> loadMore connected s = (None, s)"
    by (simp add: loadMore_def)
  have b: "\<not> search_isLoading s \<and> hasMore s \<longrightarrow>
      loadMore connected s = search_start connected None (Some (page s + 1)) (Some (pageSize s)) s"
    by (simp add: loadMore_def)
  have c: "\<not> search_isLoading s \<and> hasMore s \<and> trim (query s) \<noteq> [] \<and> 1 \<le> page s \<longrightarrow>
      (\<exists>rq s1. loadMore True s = (Some rq, s1) \<and>
         request_query rq = query s \<and> request_page rq = page s + 1 \<and>
         request_limit rq = pageSize s \<and> results s1 = results s \<and>
         results (search_finish rq (Returned d) s1) = results s @ results_or_empty d \<and>
         length (results (search_finish rq (Returned d) s1))
           = length (results s) + length (results_or_empty d))"
  proof
    assume h: "\<not> search_isLoading s \<and> hasMore s \<and> trim (query s) \<noteq> [] \<and> 1 \<le> page s"
    then have "trim (case None of None \<Rightarrow> query s | Some q \<Rightarrow> q) \<noteq> []" by simp
    then have "search_start True None (Some (page s + 1)) (Some (pageSize s)) s =
       (Some \<lparr>request_query = query s, request_filters = filters s,
              request_page = page s + 1, request_limit = pageSize s\<rparr>,
        s\<lparr>query := query s, search_isLoading := True, search_error := None\<rparr>)"
      using search_start_issues [where searchQuery = None and s = s
          and page_arg = "Some (page s + 1)" and pageSize_arg = "Some (pageSize s)"] by simp
    with h show "\<exists>rq s1. loadMore True s = (Some rq, s1) \<and>
         request_query rq = query s \<and> request_page rq = page s + 1 \<and>
         request_limit rq = pageSize s \<and> results s1 = results s \<and>
         results (search_finish rq (Returned d) s1) = results s @ results_or_empty d \<and>
         length (results (search_finish rq (Returned d) s1))
           = length (results s) + length (results_or_empty d)"
      by (simp add: loadMore_def)
  qed
  from a b c show ?thesis by blast
qed

theorem C4_witness:
  "search_finish
      \<lparr>request_query = ''melanoma trials'',
        request_filters = filters (search_init :: nat search_state),
        request_page = 1, request_limit = 10\<rparr>
      (Returned \<lparr>data_results = Some [1, 2, 3, 4, 5, 6, 7, 8, 9, 10 :: nat], data_total = Some 42\<rparr>)
      (snd (search_start True (Some ''melanoma trials'') (Some 1) (Some 10)
              (search_init :: nat search_state)))
     = 
     \<lparr>query = ''melanoma trials'', results = [1, 2, 3, 4, 5, 6, 7, 8, 9, 10 :: nat],
        totalResults = 42, filters = filters (search_init :: nat search_state),
        search_isLoading = False, search_error = None, page = 1, pageSize = 10,
        hasMore = True\<rparr> \<and>
   fst (loadMore True 
     \<lparr>query = ''melanoma trials'', results = [1, 2, 3, 4, 5, 6, 7, 8, 9, 10 :: nat],
        totalResults = 42, filters = filters (search_init :: nat search_state),
        search_isLoading = False, search_error = None, page = 1, pageSize = 10,
        hasMore = True\<rparr>) = Some 
     \<lparr>request_query = ''melanoma trials'',
        request_filters = filters (search_init :: nat search_state),
        request_page = 2, request_limit = 10\<rparr> \<and>
   length (results (search_finish 
     \<lparr>request_query = ''melanoma trials'',
        request_filters = filters (search_init :: nat search_state),
        request_page = 2, request_limit = 10\<rparr> (Returned \<lparr>data_results = Some [11, 12, 13 :: nat], data_total = Some 42\<rparr>) (snd (loadMore True 
     \<lparr>query = ''melanoma trials'', results = [1, 2, 3, 4, 5, 6, 7, 8, 9, 10 :: nat],
        totalResults = 42, filters = filters (search_init :: nat search_state),
        search_isLoading = False, search_error = None, page = 1, pageSize = 10,
        hasMore = True\<rparr>)))) = 13 \<and>
   loadMore True (
     \<lparr>query = ''melanoma trials'', results = [1, 2, 3, 4, 5, 6, 7, 8, 9, 10 :: nat],
        totalResults = 42, filters = filters (search_init :: nat search_state),
        search_isLoading = False, search_error = None, page = 1, pageSize = 10,
        hasMore = True\<rparr>\<lparr>search_isLoading := True\<rparr>) = (None, 
     \<lparr>query = ''melanoma trials'', results = [1, 2, 3, 4, 5, 6, 7, 8, 9, 10 :: nat],
        totalResults = 42, filters = filters (search_init :: nat search_state),
        search_isLoading = False, search_error = None, page = 1, pageSize = 10,
        hasMore = True\<rparr>\<lparr>search_isLoading := True\<rparr>)"
proof -
  have t: "trim ''melanoma trials'' = ''melanoma trials''"
    by (simp add: trim_def is_js_space_def)
  have first: "search_finish
      \<lparr>request_query = ''melanoma trials'',
        request_filters = filters (search_init :: nat search_state),
        request_page = 1, request_limit = 10\<rparr>
      (Returned \<lparr>data_results = Some [1, 2, 3, 4, 5, 6, 7, 8, 9, 10 :: nat], data_total = Some 42\<rparr>)
      (snd (search_start True (Some ''melanoma trials'') (Some 1) (Some 10)
              (search_init :: nat search_state)))
     = 
     \<lparr>query = ''melanoma trials'', results = [1, 2, 3, 4, 5, 6, 7, 8, 9, 10 :: nat],
        totalResults = 42, filters = filters (search_init :: nat search_state),
        search_isLoading = False, search_error = None, page = 1, pageSize = 10,
        hasMore = True\<rparr>"
    by (simp add: search_start_def t search_init_def results_or_empty_def total_or_zero_def)
  have pre: "\<not> search_isLoading 
     \<lparr>query = ''melanoma trials'', results = [1, 2, 3, 4, 5, 6, 7, 8, 9, 10 :: nat],
        totalResults = 42, filters = filters (search_init :: nat search_state),
        search_isLoading = False, search_error = None, page = 1, pageSize = 10,
        hasMore = True\<rparr> \<and> hasMore 
     \<lparr>query = ''melanoma trials'', results = [1, 2, 3, 4, 5, 6, 7, 8, 9, 10 :: nat],
        totalResults = 42, filters = filters (search_init :: nat search_state),
        search_isLoading = False, search_error = None, page = 1, pageSize = 10,
        hasMore = True\<rparr> \<and> trim (query 
     \<lparr>query = ''melanoma trials'', results = [1, 2, 3, 4, 5, 6, 7, 8, 9, 10 :: nat],
        totalResults = 42, filters = filters (search_init :: nat search_state),
        search_isLoading = False, search_error = None, page = 1, pageSize = 10,
        hasMore = True\<rparr>) \<noteq> [] \<and> 1 \<le> page 
     \<lparr>query = ''melanoma trials'', results = [1, 2, 3, 4, 5, 6, 7, 8, 9, 10 :: nat],
        totalResults = 42, filters = filters (search_init :: nat search_state),
        search_isLoading = False, search_error = None, page = 1, pageSize = 10,
        hasMore = True\<rparr>"
    by (simp add: t)
  have "\<exists>rq s1. loadMore True 
     \<lparr>query = ''melanoma trials'', results = [1, 2, 3, 4, 5, 6, 7, 8, 9, 10 :: nat],
        totalResults = 42, filters = filters (search_init :: nat search_state),
        search_isLoading = False, search_error = None, page = 1, pageSize = 10,
        hasMore = True\<rparr> = (Some rq, s1) \<and>
         request_query rq = query 
     \<lparr>query = ''melanoma trials'', results = [1, 2, 3, 4, 5, 6, 7, 8, 9, 10 :: nat],
        totalResults = 42, filters = filters (search_init :: nat search_state),
        search_isLoading = False, search_error = None, page = 1, pageSize = 10,
        hasMore = True\<rparr> \<and> request_page rq = page 
     \<lparr>query = ''melanoma trials'', results = [1, 2, 3, 4, 5, 6, 7, 8, 9, 10 :: nat],
        totalResults = 42, filters = filters (search_init :: nat search_state),
        search_isLoading = False, search_error = None, page = 1, pageSize = 10,
        hasMore = True\<rparr> + 1 \<and>
         request_limit rq = pageSize 
     \<lparr>query = ''melanoma trials'', results = [1, 2, 3, 4, 5, 6, 7, 8, 9, 10 :: nat],
        totalResults = 42, filters = filters (search_init :: nat search_state),
        search_isLoading = False, search_error = None, page = 1, pageSize = 10,
        hasMore = True\<rparr> \<and> results s1 = results 
     \<lparr>query = ''melanoma trials'', results = [1, 2, 3, 4, 5, 6, 7, 8, 9, 10 :: nat],
        totalResults = 42, filters = filters (search_init :: nat search_state),
        search_isLoading = False, search_error = None, page = 1, pageSize = 10,
        hasMore = True\<rparr> \<and>
         results (search_finish rq (Returned \<lparr>data_results = Some [11, 12, 13 :: nat], data_total = Some 42\<rparr>) s1) = results 
     \<lparr>query = ''melanoma trials'', results = [1, 2, 3, 4, 5, 6, 7, 8, 9, 10 :: nat],
        totalResults = 42, filters = filters (search_init :: nat search_state),
        search_isLoading = False, search_error = None, page = 1, pageSize = 10,
        hasMore = True\<rparr> @ results_or_empty \<lparr>data_results = Some [11, 12, 13 :: nat], data_total = Some 42\<rparr> \<and>
         length (results (search_finish rq (Returned \<lparr>data_results = Some [11, 12, 13 :: nat], data_total = Some 42\<rparr>) s1))
           = length (results 
     \<lparr>query = ''melanoma trials'', results = [1, 2, 3, 4, 5, 6, 7, 8, 9, 10 :: nat],
        totalResults = 42, filters = filters (search_init :: nat search_state),
        search_isLoading = False, search_error = None, page = 1, pageSize = 10,
        hasMore = True\<rparr>) + length (results_or_empty \<lparr>data_results = Some [11, 12, 13 :: nat], data_total = Some 42\<rparr>)"
    using C4_loadMore_appends [where s = "
     \<lparr>query = ''melanoma trials'', results = [1, 2, 3, 4, 5, 6, 7, 8, 9, 10 :: nat],
        totalResults = 42, filters = filters (search_init :: nat search_state),
        search_isLoading = False, search_error = None, page = 1, pageSize = 10,
        hasMore = True\<rparr>" and d = "\<lparr>data_results = Some [11, 12, 13 :: nat], data_total = Some 42\<rparr>" and connected = True] pre
    by blast
  then obtain rq s1 where more: "loadMore True 
     \<lparr>query = ''melanoma trials'', results = [1, 2, 3, 4, 5, 6, 7, 8, 9, 10 :: nat],
        totalResults = 42, filters = filters (search_init :: nat search_state),
        search_isLoading = False, search_error = None, page = 1, pageSize = 10,
        hasMore = True\<rparr> = (Some rq, s1)"
    and rq0: "request_query rq = query 
     \<lparr>query = ''melanoma trials'', results = [1, 2, 3, 4, 5, 6, 7, 8, 9, 10 :: nat],
        totalResults = 42, filters = filters (search_init :: nat search_state),
        search_isLoading = False, search_error = None, page = 1, pageSize = 10,
        hasMore = True\<rparr>" "request_page rq = page 
     \<lparr>query = ''melanoma trials'', results = [1, 2, 3, 4, 5, 6, 7, 8, 9, 10 :: nat],
        totalResults = 42, filters = filters (search_init :: nat search_state),
        search_isLoading = False, search_error = None, page = 1, pageSize = 10,
        hasMore = True\<rparr> + 1"
      "request_limit rq = pageSize 
     \<lparr>query = ''melanoma trials'', results = [1, 2, 3, 4, 5, 6, 7, 8, 9, 10 :: nat],
        totalResults = 42, filters = filters (search_init :: nat search_state),
        search_isLoading = False, search_error = None, page = 1, pageSize = 10,
        hasMore = True\<rparr>"
    and len0: "length (results (search_finish rq (Returned \<lparr>data_results = Some [11, 12, 13 :: nat], data_total = Some 42\<rparr>) s1))
           = length (results 
     \<lparr>query = ''melanoma trials'', results = [1, 2, 3, 4, 5, 6, 7, 8, 9, 10 :: nat],
        totalResults = 42, filters = filters (search_init :: nat search_state),
        search_isLoading = False, search_error = None, page = 1, pageSize = 10,
        hasMore = True\<rparr>) + length (results_or_empty \<lparr>data_results = Some [11, 12, 13 :: nat], data_total = Some 42\<rparr>)"
    by blast
  from rq0 have rq: "request_query rq = ''melanoma trials''" "request_page rq = 2"
      "request_limit rq = 10"
    by simp_all
  from len0 have len: "length (results (search_finish rq (Returned \<lparr>data_results = Some [11, 12, 13 :: nat], data_total = Some 42\<rparr>) s1))
                = 10 + length (results_or_empty \<lparr>data_results = Some [11, 12, 13 :: nat], data_total = Some 42\<rparr>)"
    by simp
  from more have "request_filters rq = filters (search_init :: nat search_state)"
    by (auto simp: loadMore_def search_start_def t)
  with rq have rq2: "rq = 
     \<lparr>request_query = ''melanoma trials'',
        request_filters = filters (search_init :: nat search_state),
        request_page = 2, request_limit = 10\<rparr>" by (cases rq) simp
  have busy: "loadMore True (
     \<lparr>query = ''melanoma trials'', results = [1, 2, 3, 4, 5, 6, 7, 8, 9, 10 :: nat],
        totalResults = 42, filters = filters (search_init :: nat search_state),
        search_isLoading = False, search_error = None, page = 1, pageSize = 10,
        hasMore = True\<rparr>\<lparr>search_isLoading := True\<rparr>) = (None, 
     \<lparr>query = ''melanoma trials'', results = [1, 2, 3, 4, 5, 6, 7, 8, 9, 10 :: nat],
        totalResults = 42, filters = filters (search_init :: nat search_state),
        search_isLoading = False, search_error = None, page = 1, pageSize = 10,
        hasMore = True\<rparr>\<lparr>search_isLoading := True\<rparr>)"
    using C4_loadMore_appends [where s = "
     \<lparr>query = ''melanoma trials'', results = [1, 2, 3, 4, 5, 6, 7, 8, 9, 10 :: nat],
        totalResults = 42, filters = filters (search_init :: nat search_state),
        search_isLoading = False, search_error = None, page = 1, pageSize = 10,
        hasMore = True\<rparr>\<lparr>search_isLoading := True\<rparr>" and connected = True]
    by simp
  from first more rq2 len busy show ?thesis
    by (simp add: results_or_empty_def)
qed

end
